theory Spec2Isabelle
  imports Main
begin

section \<open>Data model: the User document (models/User.js)\<close>

text \<open>
  The Mongoose schema becomes a record. Dates are milliseconds since the epoch
  (\<open>Date.now()\<close> is an integer of that unit), a field that may be absent or \<open>null\<close>
  is an \<open>option\<close>. \<open>loginAttempts\<close> is a JavaScript Number holding an integer: an
  \<open>int\<close>, with the rounding of Number arithmetic written out where the code adds.
\<close>

record backup_code =
  code :: string
  used :: bool

record user =
  uid :: string
  name :: string
  email :: string
  password :: string
  createdAt :: int
  twoFactorEnabled :: bool
  twoFactorSecret :: "string option"
  twoFactorBackupCodes :: "backup_code list"
  loginAttempts :: int
  accountLocked :: bool
  lockUntil :: "int option"
  lastLogin :: "int option"
  role :: string

subsection \<open>Model methods\<close>

text \<open>
  \<open>isLocked\<close>: \<open>!!(this.lockUntil && this.lockUntil > Date.now())\<close>. A Date object is
  always truthy, \<open>null\<close> and \<open>undefined\<close> are falsy.
\<close>

definition isLocked :: "int \<Rightarrow> user \<Rightarrow> bool" where
  "isLocked now u = (case lockUntil u of None \<Rightarrow> False | Some t \<Rightarrow> now < t)"

text \<open>
  \<open>loginAttempts\<close> is a Number, an IEEE 754 double that holds an integer. A sum of
  integers is the double nearest to it, ties going to the even mantissa: integers of
  magnitude up to \<open>2 ^ 53\<close> are exact, and above that doubles are \<open>spacing m\<close> apart.
\<close>

fun spacing :: "nat \<Rightarrow> nat" where
  "spacing m = (if m < 2 ^ 53 then 1 else 2 * spacing (m div 2))"

declare spacing.simps [simp del]

definition roundNumber :: "int \<Rightarrow> int" where
  "roundNumber n =
     (let m = nat \<bar>n\<bar>; e = spacing m; q = m div e; r = m mod e;
          nearest = (if 2 * r < e then q * e
                     else if e < 2 * r then (q + 1) * e
                     else if even q then q * e else (q + 1) * e)
      in if n < 0 then - int nearest else int nearest)"

text \<open>
  \<open>incrementLoginAttempts\<close> issues one \<open>updateOne\<close> on the stored document. The
  document in memory was loaded by the same request, so the value \<open>this.loginAttempts\<close>
  the test reads is the stored one, and \<open>$inc\<close> adds one to it, in Number arithmetic
  both times. The function returns the stored document after the update.
\<close>

definition incrementLoginAttempts :: "int \<Rightarrow> user \<Rightarrow> user" where
  "incrementLoginAttempts now u =
     (if (case lockUntil u of None \<Rightarrow> False | Some t \<Rightarrow> t < now)
      then u\<lparr>loginAttempts := 1, lockUntil := None, accountLocked := False\<rparr>
      else if roundNumber (loginAttempts u + 1) \<ge> 5
      then u\<lparr>loginAttempts := roundNumber (loginAttempts u + 1),
              lockUntil := Some (now + 1 * 60 * 60 * 1000),
              accountLocked := True\<rparr>
      else u\<lparr>loginAttempts := roundNumber (loginAttempts u + 1)\<rparr>)"

definition resetLoginAttempts :: "int \<Rightarrow> user \<Rightarrow> user" where
  "resetLoginAttempts now u =
     u\<lparr>loginAttempts := 0, lockUntil := None, accountLocked := False, lastLogin := Some now\<rparr>"

text \<open>
  The schema's \<open>pre('save')\<close> hook calls \<open>next()\<close> when the password is unmodified, and
  the save goes on with the fields the handler assigned; a \<open>save()\<close> is modelled as the
  write of those fields.
\<close>

text \<open>
  \<open>matchPassword\<close> is \<open>bcrypt.compare(enteredPassword, this.password)\<close>; the bcrypt
  comparison is a parameter (plaintext first, stored hash second).
\<close>

definition matchPassword :: "(string \<Rightarrow> string \<Rightarrow> bool) \<Rightarrow> user \<Rightarrow> string \<Rightarrow> bool" where
  "matchPassword cmp u entered = cmp entered (password u)"

text \<open>\<open>process.env\<close>, the configuration every function can read.\<close>

record process_env =
  NODE_ENV :: "string option"
  JWT_SECRET :: "string option"
  JWT_EXPIRE :: "string option"

text \<open>
  \<open>getSignedJwtToken\<close> signs the payload \<open>{id, role, twoFactorEnabled}\<close> with
  \<open>process.env.JWT_SECRET\<close> and the expiry \<open>process.env.JWT_EXPIRE\<close>. The signing
  function of the jsonwebtoken library is a parameter; it returns the token, or \<open>None\<close>
  when \<open>jwt.sign\<close> throws (as it does on an unset secret).
\<close>

record jwt_payload =
  jwt_id :: string
  jwt_role :: string
  jwt_twoFactorEnabled :: bool

type_synonym signer = "jwt_payload \<Rightarrow> string option \<Rightarrow> string option \<Rightarrow> string option"

definition getSignedJwtToken :: "signer \<Rightarrow> process_env \<Rightarrow> user \<Rightarrow> string option" where
  "getSignedJwtToken sign env u =
     sign \<lparr>jwt_id = uid u, jwt_role = role u, jwt_twoFactorEnabled = twoFactorEnabled u\<rparr>
       (JWT_SECRET env) (JWT_EXPIRE env)"

section \<open>The persistence layer and the request\<close>

text \<open>
  The users collection is a list of documents, identifiers are strings (\<open>uid\<close> is the
  field \<open>_id\<close>). \<open>findById\<close> and \<open>findOne({email})\<close> return the first match or \<open>null\<close>;
  \<open>updateOne\<close> rewrites the first match. Reads and writes of the collection are taken
  to succeed; a handler's \<open>catch\<close> branch is modelled where a \<open>null\<close> document, the cast
  of an identifier from the request body or the signing of a token makes the handler
  throw.
\<close>

fun findById :: "string \<Rightarrow> user list \<Rightarrow> user option" where
  "findById i [] = None"
| "findById i (u # us) = (if uid u = i then Some u else findById i us)"

fun findOneByEmail :: "string \<Rightarrow> user list \<Rightarrow> user option" where
  "findOneByEmail e [] = None"
| "findOneByEmail e (u # us) = (if email u = e then Some u else findOneByEmail e us)"

fun updateOne :: "string \<Rightarrow> (user \<Rightarrow> user) \<Rightarrow> user list \<Rightarrow> user list" where
  "updateOne i f [] = []"
| "updateOne i f (u # us) = (if uid u = i then f u # us else u # updateOne i f us)"

text \<open>
  A field of the request body is absent or a string; JavaScript's \<open>!x\<close> holds of an
  absent field and of the empty string.
\<close>

definition truthy :: "string option \<Rightarrow> bool" where
  "truthy v = (case v of None \<Rightarrow> False | Some s \<Rightarrow> s \<noteq> [])"

text \<open>
  The JSON bodies the controllers send. \<open>SecretData\<close> is
  \<open>data: {qrCode, secret, otpauthUrl}\<close>; \<open>BackupCodes\<close> is \<open>{message, backupCodes}\<close>;
  \<open>TwoFactorRequired\<close> is \<open>{twoFactorRequired: true, userId, message}\<close>;
  \<open>Session\<close> is \<open>{token, user: {id, name, email}}\<close> and \<open>SessionLogin\<close> the same with
  \<open>twoFactorEnabled\<close> in \<open>user\<close>.
\<close>

datatype body =
    Message string
  | SecretData string string string
  | BackupCodes string "string list"
  | TwoFactorRequired string string
  | Session string string string string
  | SessionLogin string string string string bool

record response =
  status :: nat
  success :: bool
  body :: body

definition failure :: "nat \<Rightarrow> string \<Rightarrow> response" where
  "failure st msg = \<lparr>status = st, success = False, body = Message msg\<rparr>"

section \<open>Login (controllers/users.js)\<close>

text \<open>
  \<open>loginUser\<close> returns the collection after the request and the response. The logger
  calls change neither and are left out. \<open>Date.now()\<close> is read once per request. When
  \<open>getSignedJwtToken\<close> throws, the \<open>catch\<close> branch answers 500; the reset of the login
  attempts has been written by then.
\<close>

definition loginUser ::
  "(string \<Rightarrow> string \<Rightarrow> bool) \<Rightarrow> signer \<Rightarrow> process_env \<Rightarrow> int \<Rightarrow> user list \<Rightarrow>
   string \<Rightarrow> string \<Rightarrow> user list \<times> response" where
  "loginUser cmp sign env now db em pw =
     (case findOneByEmail em db of
        None \<Rightarrow> (db, failure 401 ''Invalid credentials'')
      | Some u \<Rightarrow>
          if isLocked now u
          then (db, failure 401
                  ''Account is locked due to too many failed attempts. Try again later.'')
          else if \<not> matchPassword cmp u pw
          then (updateOne (uid u) (incrementLoginAttempts now) db,
                failure 401 ''Invalid credentials'')
          else if twoFactorEnabled u
          then (updateOne (uid u) (resetLoginAttempts now) db,
                \<lparr>status = 200, success = True,
                 body = TwoFactorRequired (uid u) ''Please complete two-factor authentication''\<rparr>)
          else (updateOne (uid u) (resetLoginAttempts now) db,
                case getSignedJwtToken sign env u of
                  None \<Rightarrow> failure 500 ''Server error''
                | Some token \<Rightarrow>
                    \<lparr>status = 200, success = True,
                     body = SessionLogin token (uid u) (name u) (email u)
                              (twoFactorEnabled u)\<rparr>))"

section \<open>Two-factor authentication (the 2FA controller, second part of utils/sanitize.js)\<close>

subsection \<open>Library functions taken as parameters\<close>

text \<open>
  \<^item> \<open>totp secret token window\<close> is \<open>speakeasy.totp.verify\<close> with base32 encoding at the
    time of the call; the secret is a field that may be absent.
  \<^item> \<open>gen label\<close> is \<open>speakeasy.generateSecret({name: label})\<close>, returning the base32
    secret and the otpauth URL; \<open>qr\<close> is \<open>QRCode.toDataURL\<close>.
  \<^item> \<open>hash\<close> is \<open>bcrypt.hash(_, 10)\<close>, \<open>cmp\<close> is \<open>bcrypt.compare\<close>.
  \<^item> \<open>rnd k\<close> is the string \<open>Math.random().toString(36).substring(2, 10)\<close> of the
    \<open>k\<close>-th draw of the request, counted from 0.
\<close>

type_synonym totp_verify = "string option \<Rightarrow> string \<Rightarrow> nat \<Rightarrow> bool"

record generated_secret =
  base32 :: string
  otpauth_url :: string

subsection \<open>generate2FASecret\<close>

text \<open>
  The session slot \<open>req.session.twoFactorSecret\<close> is a \<open>string option\<close>, passed in and
  returned. A \<open>null\<close> user makes \<open>user.email\<close> throw, which the handler answers with 500.
\<close>

definition generate2FASecret ::
  "(string \<Rightarrow> generated_secret) \<Rightarrow> (string \<Rightarrow> string) \<Rightarrow> process_env \<Rightarrow> user list \<Rightarrow>
   string option \<Rightarrow> string \<Rightarrow> string option \<times> response" where
  "generate2FASecret gen qr env db session req_user =
     (case findById req_user db of
        None \<Rightarrow> (session, failure 500 ''Error generating 2FA secret'')
      | Some u \<Rightarrow>
          (let secret = gen (''Time Capsule:'' @ email u);
               qrCodeUrl = qr (otpauth_url secret)
           in (Some (base32 secret),
               \<lparr>status = 200, success = True,
                body = SecretData qrCodeUrl (base32 secret) (otpauth_url secret)\<rparr>)))"

subsection \<open>verify2FAToken\<close>

text \<open>
  The loop \<open>for (let i = 0; i < 10; i++)\<close> that draws a code and pushes its hash:
  \<open>hashedCodes hash rnd i n\<close> runs the \<open>n\<close> remaining rounds from round \<open>i\<close>.
\<close>

fun hashedCodes :: "(string \<Rightarrow> string) \<Rightarrow> (nat \<Rightarrow> string) \<Rightarrow> nat \<Rightarrow> nat \<Rightarrow> backup_code list" where
  "hashedCodes hash rnd i 0 = []"
| "hashedCodes hash rnd i (Suc n) =
     \<lparr>code = hash (rnd i), used = False\<rparr> # hashedCodes hash rnd (Suc i) n"

text \<open>
  \<open>backupCodes.map((_, index) => Math.random().toString(36).substring(2, 10))\<close>:
  one further draw for each element, the element itself ignored; \<open>k\<close> is the number of
  draws made before.
\<close>

fun plainCodes :: "(nat \<Rightarrow> string) \<Rightarrow> nat \<Rightarrow> backup_code list \<Rightarrow> string list" where
  "plainCodes rnd k [] = []"
| "plainCodes rnd k (b # bs) = rnd k # plainCodes rnd (Suc k) bs"

text \<open>
  The result is the collection, the session slot and the response.
  \<open>findByIdAndUpdate\<close> returns \<open>null\<close> when no document has the id; \<open>user.id\<close> then
  throws before the session slot is deleted, and the handler answers with 500.
\<close>

definition verify2FAToken ::
  "totp_verify \<Rightarrow> (string \<Rightarrow> string) \<Rightarrow> (nat \<Rightarrow> string) \<Rightarrow> user list \<Rightarrow> string option \<Rightarrow>
   string \<Rightarrow> string option \<Rightarrow> user list \<times> string option \<times> response" where
  "verify2FAToken totp hash rnd db session req_user tok =
     (case tok of
        None \<Rightarrow> (db, session, failure 400 ''Please provide a token'')
      | Some t \<Rightarrow>
          if t = [] then (db, session, failure 400 ''Please provide a token'')
          else if \<not> truthy session
          then (db, session,
                failure 400 ''No 2FA secret found. Please generate a new secret first.'')
          else if \<not> totp session t 1
          then (db, session, failure 400 ''Invalid token, verification failed'')
          else
            (let backupCodes = hashedCodes hash rnd 0 10;
                 db' = updateOne req_user
                         (\<lambda>d. d\<lparr>twoFactorSecret := session, twoFactorEnabled := True,
                                twoFactorBackupCodes := backupCodes\<rparr>) db;
                 plainBackupCodes = plainCodes rnd 10 backupCodes
             in case findById req_user db' of
                  None \<Rightarrow> (db', session, failure 500 ''Error verifying 2FA token'')
                | Some u \<Rightarrow>
                    (db', None,
                     \<lparr>status = 200, success = True,
                      body = BackupCodes ''2FA has been enabled'' plainBackupCodes\<rparr>)))"

subsection \<open>disable2FA\<close>


subsection \<open>verify2FALogin\<close>

text \<open>
  The route is public and \<open>userId\<close> comes from the request body: \<open>findById\<close> casts it to
  an ObjectId and throws a CastError on a string that is none, which the handler's
  \<open>catch\<close> answers with 500. The cast of the mongoose library is the parameter
  \<open>validId\<close>.
\<close>

text \<open>
  The schema gives the \<open>code\<close> of a backup-code entry \<open>select: false\<close>, and the query of
  this handler selects \<open>+twoFactorSecret +twoFactorBackupCodes\<close>, not the \<open>code\<close> path:
  the entries of the loaded document have no \<open>code\<close>.
\<close>

record loaded_backup_code =
  loaded_code :: "string option"
  loaded_used :: bool

definition loadBackupCode :: "backup_code \<Rightarrow> loaded_backup_code" where
  "loadBackupCode c = \<lparr>loaded_code = None, loaded_used = used c\<rparr>"

text \<open>
  \<open>bcrypt.compare(data, hash)\<close> without a callback returns a promise; on an undefined
  hash the promise is rejected (\<open>data and hash arguments required\<close>), which is \<open>None\<close>
  here.
\<close>

definition bcryptCompare ::
  "(string \<Rightarrow> string \<Rightarrow> bool) \<Rightarrow> string \<Rightarrow> string option \<Rightarrow> bool option" where
  "bcryptCompare cmp d h = (case h of None \<Rightarrow> None | Some s \<Rightarrow> Some (cmp d s))"

text \<open>
  \<open>Array.prototype.findIndex\<close> converts what the predicate returns to a boolean. The
  predicate of the handler is an \<open>async\<close> function: it returns a promise, and a promise
  is an object, which converts to \<open>true\<close> whether it will be fulfilled (\<open>Some\<close> of its
  value) or rejected (\<open>None\<close>). \<open>predicateResults\<close> lists what the calls made by
  \<open>findIndex\<close> returned.
\<close>

datatype js_value = JSBool bool | JSPromise "bool option"

fun toBoolean :: "js_value \<Rightarrow> bool" where
  "toBoolean (JSBool b) = b"
| "toBoolean (JSPromise v) = True"

fun isRejected :: "js_value \<Rightarrow> bool" where
  "isRejected (JSBool b) = False"
| "isRejected (JSPromise v) = (v = None)"

fun findIndex :: "('a \<Rightarrow> js_value) \<Rightarrow> 'a list \<Rightarrow> int" where
  "findIndex p [] = - 1"
| "findIndex p (x # xs) =
     (if toBoolean (p x) then 0
      else (let r = findIndex p xs in if r = - 1 then - 1 else r + 1))"

fun predicateResults :: "('a \<Rightarrow> js_value) \<Rightarrow> 'a list \<Rightarrow> js_value list" where
  "predicateResults p [] = []"
| "predicateResults p (x # xs) =
     (if toBoolean (p x) then [p x] else p x # predicateResults p xs)"

text \<open>
  The predicate: \<open>await bcrypt.compare(backupCode, code.code) && !code.used\<close>. A rejected
  comparison makes the \<open>await\<close> throw, and the promise of the predicate is rejected.
\<close>

definition backupCodePredicate ::
  "(string \<Rightarrow> string \<Rightarrow> bool) \<Rightarrow> string \<Rightarrow> loaded_backup_code \<Rightarrow> js_value" where
  "backupCodePredicate cmp bc c =
     JSPromise (case bcryptCompare cmp bc (loaded_code c) of
                  None \<Rightarrow> None
                | Some matched \<Rightarrow> Some (matched \<and> \<not> loaded_used c))"

definition markUsed :: "nat \<Rightarrow> backup_code list \<Rightarrow> backup_code list" where
  "markUsed i cs = cs[i := (cs ! i)\<lparr>used := True\<rparr>]"

text \<open>
  Nobody awaits or catches the promises of the predicate, and the application installs
  no handler for unhandled rejections. What a rejected one does is the runtime's policy
  \<open>--unhandled-rejections\<close>: \<open>Warn\<close> (the default up to Node 14) prints a warning,
  \<open>Throw\<close> (the default from Node 15) raises an uncaught exception, which ends the
  process. The rejection is reported while the handler waits for \<open>user.save()\<close>, so
  under \<open>Throw\<close> the process ends before the handler answers; whether the save was
  written by then is not determined, and \<open>ProcessExit\<close> carries no collection.
\<close>

datatype rejection_mode = Throw | Warn

datatype outcome = Answered "user list" response | ProcessExit

text \<open>
  The verification step gives \<open>None\<close> when the process ends, else \<open>isVerified\<close> and the
  collection after the save. \<open>resetLoginAttempts\<close> is written before the token is
  signed; when the signing throws, the \<open>catch\<close> branch answers 500.
\<close>

definition verify2FALogin ::
  "(string \<Rightarrow> bool) \<Rightarrow> totp_verify \<Rightarrow> (string \<Rightarrow> string \<Rightarrow> bool) \<Rightarrow> signer \<Rightarrow> process_env \<Rightarrow>
   rejection_mode \<Rightarrow> int \<Rightarrow> user list \<Rightarrow>
   string option \<Rightarrow> string option \<Rightarrow> string option \<Rightarrow> outcome" where
  "verify2FALogin validId totp cmp sign env mode now db userId authToken backupCode =
     (case userId of
        None \<Rightarrow>
          Answered db (failure 400 ''Please provide userId and either a token or backup code'')
      | Some i \<Rightarrow>
          if i = [] \<or> (\<not> truthy authToken \<and> \<not> truthy backupCode)
          then Answered db
                 (failure 400 ''Please provide userId and either a token or backup code'')
          else if \<not> validId i
          then Answered db (failure 500 ''Error verifying 2FA'')
          else
            (case findById i db of
               None \<Rightarrow> Answered db (failure 404 ''User not found'')
             | Some u \<Rightarrow>
                 if \<not> twoFactorEnabled u
                 then Answered db (failure 400 ''2FA is not enabled for this user'')
                 else
                   (case (if truthy authToken
                          then (case authToken of None \<Rightarrow> Some (False, db)
                                | Some t \<Rightarrow> Some (totp (twoFactorSecret u) t 1, db))
                          else (case backupCode of None \<Rightarrow> Some (False, db)
                                | Some bc \<Rightarrow>
                                    (let loaded = map loadBackupCode (twoFactorBackupCodes u);
                                         backupCodeIndex =
                                           findIndex (backupCodePredicate cmp bc) loaded
                                     in if backupCodeIndex \<noteq> - 1
                                        then if mode = Throw \<and>
                                                list_ex isRejected
                                                  (predicateResults (backupCodePredicate cmp bc)
                                                     loaded)
                                             then None
                                             else Some (True,
                                               updateOne (uid u)
                                                 (\<lambda>d. d\<lparr>twoFactorBackupCodes :=
                                                    markUsed (nat backupCodeIndex)
                                                      (twoFactorBackupCodes d)\<rparr>) db)
                                        else Some (False, db)))) of
                      None \<Rightarrow> ProcessExit
                    | Some (isVerified, db1) \<Rightarrow>
                        if \<not> isVerified
                        then Answered db (failure 400 ''Invalid token or backup code'')
                        else
                          (let db2 = updateOne (uid u) (resetLoginAttempts now) db1
                           in case getSignedJwtToken sign env u of
                                None \<Rightarrow> Answered db2 (failure 500 ''Error verifying 2FA'')
                              | Some jwtToken \<Rightarrow>
                                  Answered db2
                                    \<lparr>status = 200, success = True,
                                     body = Session jwtToken (uid u) (name u) (email u)\<rparr>))))"

section \<open>Sample inputs\<close>

text \<open>
  Stand-ins for the library functions and one stored user, for evaluating the
  handlers at concrete requests.
\<close>

definition sample_hash :: "string \<Rightarrow> string" where
  "sample_hash s = ''$2b$10$'' @ s"

definition sample_cmp :: "string \<Rightarrow> string \<Rightarrow> bool" where
  "sample_cmp p h = (h = sample_hash p)"

definition sample_totp :: totp_verify where
  "sample_totp secret t w = (secret = Some ''JBSWY3DPEHPK3PXP'' \<and> t = ''123456'' \<and> w = 1)"

definition sample_sign :: signer where
  "sample_sign p secret expire =
     (if truthy secret \<and> truthy expire then Some (''jwt.'' @ jwt_id p @ ''.'' @ jwt_role p)
      else None)"

definition sample_validId :: "string \<Rightarrow> bool" where
  "sample_validId i = (length i = 24 \<and> list_all (\<lambda>c. c \<in> set ''0123456789abcdef'') i)"

definition env_without_secret :: process_env where
  "env_without_secret =
     \<lparr>NODE_ENV = Some ''production'', JWT_SECRET = None, JWT_EXPIRE = Some ''30d''\<rparr>"

definition sample_gen :: "string \<Rightarrow> generated_secret" where
  "sample_gen label =
     \<lparr>base32 = ''JBSWY3DPEHPK3PXP'',
      otpauth_url = ''otpauth://totp/'' @ label @ ''?secret=JBSWY3DPEHPK3PXP''\<rparr>"

definition sample_qr :: "string \<Rightarrow> string" where
  "sample_qr url = ''data:image/png;base64,'' @ url"

definition production_env :: process_env where
  "production_env =
     \<lparr>NODE_ENV = Some ''production'', JWT_SECRET = Some ''s3cret'', JWT_EXPIRE = Some ''30d''\<rparr>"

definition alice :: user where
  "alice =
     \<lparr>uid = ''507f1f77bcf86cd799439011'', name = ''Alice'', email = ''alice@example.com'',
      password = sample_hash ''correct horse'', createdAt = 0,
      twoFactorEnabled = False, twoFactorSecret = None, twoFactorBackupCodes = [],
      loginAttempts = 0, accountLocked = False, lockUntil = None, lastLogin = None,
      role = ''user''\<rparr>"

text \<open>Alice with the second factor enabled and one unused backup code, \<open>AB12CD34\<close>.\<close>

definition alice_2fa :: user where
  "alice_2fa =
     alice\<lparr>twoFactorEnabled := True, twoFactorSecret := Some ''JBSWY3DPEHPK3PXP'',
           twoFactorBackupCodes := [\<lparr>code = sample_hash ''AB12CD34'', used = False\<rparr>]\<rparr>"

text \<open>Twenty draws of the random source, all different.\<close>

definition sample_draws :: "string list" where
  "sample_draws =
     [''k3j9x0aa'', ''k3j9x0ab'', ''k3j9x0ac'', ''k3j9x0ad'', ''k3j9x0ae'',
      ''k3j9x0af'', ''k3j9x0ag'', ''k3j9x0ah'', ''k3j9x0ai'', ''k3j9x0aj'',
      ''p7m2q1ba'', ''p7m2q1bb'', ''p7m2q1bc'', ''p7m2q1bd'', ''p7m2q1be'',
      ''p7m2q1bf'', ''p7m2q1bg'', ''p7m2q1bh'', ''p7m2q1bi'', ''p7m2q1bj'']"

definition sample_rnd :: "nat \<Rightarrow> string" where
  "sample_rnd k = (if k < length sample_draws then sample_draws ! k else ''zzzzzzzz'')"

section \<open>Facts about the persistence layer\<close>

lemma findById_uid: "findById i db = Some u \<Longrightarrow> uid u = i"
  by (induction db) (auto split: if_splits)

lemma findById_updateOne:
  "findById i db = Some u \<Longrightarrow> uid (f u) = i \<Longrightarrow> findById i (updateOne i f db) = Some (f u)"
  by (induction db) (auto split: if_splits)

lemma uid_resetLoginAttempts [simp]: "uid (resetLoginAttempts now u) = uid u"
  by (simp add: resetLoginAttempts_def)

section \<open>Number arithmetic\<close>

lemma spacing_small: "m < 2 ^ 53 \<Longrightarrow> spacing m = 1"
  by (subst spacing.simps) simp

lemma spacing_at_limit: "spacing (2 ^ 53) = 2"
  by (subst spacing.simps) (simp add: spacing_small)

lemma spacing_after_limit: "spacing (2 ^ 53 + 1) = 2"
  by (subst spacing.simps) (simp add: spacing_small)

text \<open>Integers of magnitude up to \<open>2 ^ 53\<close> are Numbers; \<open>2 ^ 53 + 1\<close> is not.\<close>

lemma roundNumber_exact: "\<bar>n\<bar> \<le> 2 ^ 53 \<Longrightarrow> roundNumber n = n"
proof (cases "\<bar>n\<bar> = 2 ^ 53")
  case True
  then have "nat \<bar>n\<bar> = 2 ^ 53"
    by simp
  then show ?thesis
    using True by (auto simp: roundNumber_def Let_def spacing_at_limit [simplified])
next
  case False
  assume "\<bar>n\<bar> \<le> 2 ^ 53"
  with False have "\<bar>n\<bar> < 2 ^ 53"
    by simp
  then have "nat \<bar>n\<bar> < 2 ^ 53"
    by (simp add: nat_less_iff)
  then show ?thesis
    by (simp add: roundNumber_def Let_def spacing_small)
qed

lemma roundNumber_after_limit: "roundNumber (2 ^ 53 + 1) = 2 ^ 53"
proof -
  have "nat \<bar>2 ^ 53 + 1 :: int\<bar> = 2 ^ 53 + 1"
    by simp
  then show ?thesis
    by (simp add: roundNumber_def Let_def spacing_after_limit [simplified])
qed

section \<open>Account lockout\<close>

text \<open>
  C4, as stated: a user with \<open>loginAttempts = 4\<close> and no unexpired lock goes to 5 and is
  locked. It fails for a user whose lock has expired: \<open>lockUntil\<close> one hour after the
  epoch, the failed attempt two hours after it. The user is not locked at that time, has
  four attempts, and \<open>incrementLoginAttempts\<close> takes its first branch: the count becomes
  1 and no lock is set.
\<close>

theorem C4_expired_lock_counterexample:
  "loginAttempts (alice\<lparr>loginAttempts := 4, lockUntil := Some 3600000\<rparr>) = 4 \<and>
   \<not> isLocked 7200000 (alice\<lparr>loginAttempts := 4, lockUntil := Some 3600000\<rparr>) \<and>
   loginAttempts (incrementLoginAttempts 7200000
      (alice\<lparr>loginAttempts := 4, lockUntil := Some 3600000\<rparr>)) = 1 \<and>
   \<not> accountLocked (incrementLoginAttempts 7200000
      (alice\<lparr>loginAttempts := 4, lockUntil := Some 3600000\<rparr>)) \<and>
   lockUntil (incrementLoginAttempts 7200000
      (alice\<lparr>loginAttempts := 4, lockUntil := Some 3600000\<rparr>)) = None"
  by (simp add: isLocked_def incrementLoginAttempts_def alice_def)

text \<open>
  C4, amended: for a user with no unexpired lock and no expired lock either
  (\<open>lockUntil\<close> is absent or equal to now), a failed attempt on four attempts ends with
  five, \<open>accountLocked\<close> and \<open>lockUntil\<close> at now plus one hour (3600000 ms). In general,
  for such a user, the call writes the lock exactly when the count after the increment
  is at least 5, and otherwise leaves \<open>lockUntil\<close> and \<open>accountLocked\<close> as they were; the
  count after the increment is the count plus one as long as the count is a safe integer.
\<close>

theorem C4_lock_at_threshold:
  assumes "\<not> isLocked now u"
    and "case lockUntil u of None \<Rightarrow> True | Some t \<Rightarrow> \<not> t < now"
  shows "(loginAttempts u = 4 \<longrightarrow>
            incrementLoginAttempts now u =
              u\<lparr>loginAttempts := 5, lockUntil := Some (now + 3600000), accountLocked := True\<rparr>) \<and>
         (if 5 \<le> loginAttempts (incrementLoginAttempts now u)
          then lockUntil (incrementLoginAttempts now u) = Some (now + 3600000) \<and>
               accountLocked (incrementLoginAttempts now u)
          else lockUntil (incrementLoginAttempts now u) = lockUntil u \<and>
               accountLocked (incrementLoginAttempts now u) = accountLocked u) \<and>
         (\<bar>loginAttempts u\<bar> < 2 ^ 53 \<longrightarrow>
            loginAttempts (incrementLoginAttempts now u) = loginAttempts u + 1)"
proof -
  have branch: "\<not> (case lockUntil u of None \<Rightarrow> False | Some t \<Rightarrow> t < now)"
    using assms(2) by (simp split: option.splits)
  have five: "roundNumber 5 = 5"
    by (simp add: roundNumber_exact)
  have exact: "\<bar>loginAttempts u\<bar> < 2 ^ 53 \<Longrightarrow>
      roundNumber (loginAttempts u + 1) = loginAttempts u + 1"
    by (rule roundNumber_exact) linarith
  show ?thesis
    using branch five exact by (simp add: incrementLoginAttempts_def)
qed

theorem C4_lock_at_threshold_witness:
  "\<not> isLocked 7200000 (alice\<lparr>loginAttempts := 4\<rparr>) \<and>
   loginAttempts (alice\<lparr>loginAttempts := 4\<rparr>) = 4 \<and>
   lockUntil (alice\<lparr>loginAttempts := 4\<rparr>) = None \<and>
   incrementLoginAttempts 7200000 (alice\<lparr>loginAttempts := 4\<rparr>) =
     alice\<lparr>loginAttempts := 5, lockUntil := Some 10800000, accountLocked := True\<rparr> \<and>
   isLocked 7200001 (incrementLoginAttempts 7200000 (alice\<lparr>loginAttempts := 4\<rparr>))"
  using C4_lock_at_threshold [where u = "alice\<lparr>loginAttempts := 4\<rparr>" and now = 7200000]
  by (simp add: alice_def isLocked_def)

text \<open>
  C5: for a user whose \<open>lockUntil\<close> has elapsed (it is set and earlier than now), a
  failed attempt sets \<open>loginAttempts\<close> to exactly 1, clears \<open>lockUntil\<close> and
  \<open>accountLocked\<close>, and leaves the account unlocked at any later time.
\<close>

theorem C5_expired_lock_resets_to_one:
  assumes "lockUntil u = Some t" and "t < now"
  shows "incrementLoginAttempts now u =
           u\<lparr>loginAttempts := 1, lockUntil := None, accountLocked := False\<rparr> \<and>
         loginAttempts (incrementLoginAttempts now u) = 1 \<and>
         lockUntil (incrementLoginAttempts now u) = None \<and>
         \<not> accountLocked (incrementLoginAttempts now u) \<and>
         \<not> isLocked later (incrementLoginAttempts now u)"
  using assms by (simp add: incrementLoginAttempts_def isLocked_def)

theorem C5_expired_lock_resets_to_one_witness:
  "lockUntil (alice\<lparr>loginAttempts := 5, accountLocked := True, lockUntil := Some 3600000\<rparr>)
     = Some 3600000 \<and> (3600000::int) < 7200000 \<and>
   incrementLoginAttempts 7200000
     (alice\<lparr>loginAttempts := 5, accountLocked := True, lockUntil := Some 3600000\<rparr>) =
     alice\<lparr>loginAttempts := 1\<rparr>"
  using C5_expired_lock_resets_to_one
    [where u = "alice\<lparr>loginAttempts := 5, accountLocked := True, lockUntil := Some 3600000\<rparr>"
       and t = 3600000 and now = 7200000 and later = 7200000]
  by (simp add: alice_def)

text \<open>
  At the instant \<open>now = lockUntil\<close> neither \<open>isLocked\<close> (a strict \<open>>\<close>) nor the reset
  (a strict \<open><\<close>) applies: the lock is over, and a failed attempt counts on from the
  stored count and locks again.
\<close>

lemma incrementLoginAttempts_at_lockUntil:
  assumes "lockUntil u = Some now" and "4 \<le> loginAttempts u" and "loginAttempts u < 2 ^ 53"
  shows "\<not> isLocked now u \<and>
         loginAttempts (incrementLoginAttempts now u) = loginAttempts u + 1 \<and>
         lockUntil (incrementLoginAttempts now u) = Some (now + 3600000) \<and>
         accountLocked (incrementLoginAttempts now u)"
proof -
  have "roundNumber (loginAttempts u + 1) = loginAttempts u + 1"
    using assms(2,3) by (intro roundNumber_exact) linarith
  then show ?thesis
    using assms by (simp add: isLocked_def incrementLoginAttempts_def)
qed

text \<open>At \<open>2 ^ 53\<close> attempts the increment no longer changes the count.\<close>

lemma incrementLoginAttempts_at_limit:
  assumes "lockUntil u = None" and "loginAttempts u = 2 ^ 53"
  shows "loginAttempts (incrementLoginAttempts now u) = 2 ^ 53"
  using assms by (simp add: incrementLoginAttempts_def roundNumber_after_limit [simplified])

section \<open>Login responses\<close>

text \<open>
  C3, as stated: the response for a locked account is the response for a wrong password.
  It fails: with the same wrong password, the locked Alice and the unlocked Alice get
  different responses.
\<close>

theorem C3_locked_message_counterexample:
  "isLocked 1000 (alice\<lparr>lockUntil := Some 5000\<rparr>) \<and>
   \<not> isLocked 1000 alice \<and>
   \<not> matchPassword sample_cmp alice ''wrong'' \<and>
   snd (loginUser sample_cmp sample_sign production_env 1000
          [alice\<lparr>lockUntil := Some 5000\<rparr>] ''alice@example.com'' ''wrong'') \<noteq>
   snd (loginUser sample_cmp sample_sign production_env 1000
          [alice] ''alice@example.com'' ''wrong'')"
  by (simp add: loginUser_def isLocked_def matchPassword_def sample_cmp_def sample_hash_def
      alice_def failure_def)

text \<open>
  C3, amended: on a stored account, a login attempt while the account is locked and one
  with a wrong password both answer status 401 with \<open>success = false\<close>; the message is
  \<open>Account is locked due to too many failed attempts. Try again later.\<close> when the account
  is locked and \<open>Invalid credentials\<close> when it is not locked and the password is wrong.
\<close>

theorem C3_login_failure_responses:
  assumes "findOneByEmail em db = Some u"
    and "isLocked now u \<or> \<not> matchPassword cmp u pw"
  shows "snd (loginUser cmp sign env now db em pw) =
           failure 401
             (if isLocked now u
              then ''Account is locked due to too many failed attempts. Try again later.''
              else ''Invalid credentials'') \<and>
         status (snd (loginUser cmp sign env now db em pw)) = 401 \<and>
         success (snd (loginUser cmp sign env now db em pw)) = False"
  using assms by (auto simp: loginUser_def failure_def)

theorem C3_login_failure_responses_witness:
  "findOneByEmail ''alice@example.com'' [alice\<lparr>lockUntil := Some 5000\<rparr>] =
     Some (alice\<lparr>lockUntil := Some 5000\<rparr>) \<and>
   isLocked 1000 (alice\<lparr>lockUntil := Some 5000\<rparr>) \<and>
   snd (loginUser sample_cmp sample_sign production_env 1000
          [alice\<lparr>lockUntil := Some 5000\<rparr>] ''alice@example.com'' ''wrong'') =
     failure 401 ''Account is locked due to too many failed attempts. Try again later.'' \<and>
   findOneByEmail ''alice@example.com'' [alice] = Some alice \<and>
   \<not> isLocked 1000 alice \<and>
   \<not> matchPassword sample_cmp alice ''wrong'' \<and>
   snd (loginUser sample_cmp sample_sign production_env 1000
          [alice] ''alice@example.com'' ''wrong'') = failure 401 ''Invalid credentials''"
proof -
  have e: "email alice = ''alice@example.com''"
    by (simp add: alice_def)
  have f1: "findOneByEmail ''alice@example.com'' [alice\<lparr>lockUntil := Some 5000\<rparr>] =
      Some (alice\<lparr>lockUntil := Some 5000\<rparr>)"
    by (simp add: e)
  have l1: "isLocked 1000 (alice\<lparr>lockUntil := Some 5000\<rparr>)"
    by (simp add: isLocked_def)
  have f2: "findOneByEmail ''alice@example.com'' [alice] = Some alice"
    by (simp add: e)
  have l2: "\<not> isLocked 1000 alice"
    by (simp add: isLocked_def alice_def)
  have m2: "\<not> matchPassword sample_cmp alice ''wrong''"
    by (simp add: matchPassword_def sample_cmp_def sample_hash_def alice_def)
  from C3_login_failure_responses [OF f1 disjI1 [OF l1],
      where cmp = sample_cmp and sign = sample_sign and env = production_env and pw = "''wrong''"]
    C3_login_failure_responses [OF f2 disjI2 [OF m2],
      where sign = sample_sign and env = production_env and now = 1000]
    f1 l1 f2 l2 m2
  show ?thesis by simp
qed

section \<open>Enrollment and disabling of the second factor\<close>

text \<open>
  C6: when no pending secret is in the session, or the submitted code does not validate
  against the pending secret under \<open>totp\<close> with window 1 (no code submitted included),
  \<open>verify2FAToken\<close> answers 400 with \<open>success = false\<close> and one of its three failure
  messages, and the users collection is what it was: no secret, no backup codes and no
  \<open>twoFactorEnabled\<close> are written.
\<close>

theorem C6_failed_enrollment_leaves_record:
  assumes "\<not> truthy session \<or> (case tok of None \<Rightarrow> True | Some t \<Rightarrow> \<not> totp session t 1)"
  shows "fst (verify2FAToken totp hash rnd db session req_user tok) = db \<and>
         status (snd (snd (verify2FAToken totp hash rnd db session req_user tok))) = 400 \<and>
         success (snd (snd (verify2FAToken totp hash rnd db session req_user tok))) = False \<and>
         body (snd (snd (verify2FAToken totp hash rnd db session req_user tok))) \<in>
           {Message ''Please provide a token'',
            Message ''No 2FA secret found. Please generate a new secret first.'',
            Message ''Invalid token, verification failed''}"
  using assms by (auto simp: verify2FAToken_def failure_def split: option.splits)

theorem C6_failed_enrollment_leaves_record_witness:
  "\<not> truthy None \<and>
   fst (verify2FAToken sample_totp sample_hash sample_rnd [alice] None ''507f1f77bcf86cd799439011'' (Some ''123456''))
     = [alice] \<and>
   status (snd (snd (verify2FAToken sample_totp sample_hash sample_rnd [alice] None ''507f1f77bcf86cd799439011''
     (Some ''123456'')))) = 400 \<and>
   \<not> sample_totp (Some ''JBSWY3DPEHPK3PXP'') ''000000'' 1 \<and>
   fst (verify2FAToken sample_totp sample_hash sample_rnd [alice] (Some ''JBSWY3DPEHPK3PXP'')
     ''507f1f77bcf86cd799439011'' (Some ''000000'')) = [alice] \<and>
   status (snd (snd (verify2FAToken sample_totp sample_hash sample_rnd [alice]
     (Some ''JBSWY3DPEHPK3PXP'') ''507f1f77bcf86cd799439011'' (Some ''000000'')))) = 400 \<and>
   twoFactorEnabled alice = False"
  using C6_failed_enrollment_leaves_record
      [where totp = sample_totp and hash = sample_hash and rnd = sample_rnd and db = "[alice]"
        and session = None and req_user = "''507f1f77bcf86cd799439011''" and tok = "Some ''123456''"]
    C6_failed_enrollment_leaves_record
      [where totp = sample_totp and hash = sample_hash and rnd = sample_rnd and db = "[alice]"
        and session = "Some ''JBSWY3DPEHPK3PXP''" and req_user = "''507f1f77bcf86cd799439011''"
        and tok = "Some ''000000''"]
  by (simp add: truthy_def sample_totp_def alice_def)



text \<open>
  C8, evaluated in a production configuration: \<open>generate2FASecret\<close> never reads
  \<open>process.env\<close>, and with \<open>NODE_ENV = production\<close> the response body still carries the
  raw base32 secret in its \<open>secret\<close> field.
\<close>

theorem C8_secret_sent_in_production:
  "NODE_ENV production_env = Some ''production'' \<and>
   generate2FASecret sample_gen sample_qr production_env [alice] None ''507f1f77bcf86cd799439011'' =
     (Some ''JBSWY3DPEHPK3PXP'',
      \<lparr>status = 200, success = True,
       body = SecretData
         ''data:image/png;base64,otpauth://totp/Time Capsule:alice@example.com?secret=JBSWY3DPEHPK3PXP''
         ''JBSWY3DPEHPK3PXP''
         ''otpauth://totp/Time Capsule:alice@example.com?secret=JBSWY3DPEHPK3PXP''\<rparr>)"
  by (simp add: generate2FASecret_def production_env_def sample_gen_def sample_qr_def alice_def)

text \<open>The response and the session slot are the same under every configuration.\<close>

lemma generate2FASecret_ignores_env:
  "generate2FASecret gen qr env db session req_user =
   generate2FASecret gen qr env' db session req_user"
  by (simp add: generate2FASecret_def)

text \<open>
  The loop stores the hashes of draws 0 to 9; the list sent to the caller is made of
  the draws that follow them.
\<close>

lemma hashedCodes_map:
  "hashedCodes hash rnd i n = map (\<lambda>k. \<lparr>code = hash (rnd k), used = False\<rparr>) [i..<i + n]"
  by (induction n arbitrary: i) (simp_all add: upt_rec)

lemma plainCodes_map:
  "plainCodes rnd k bs = map rnd [k..<k + length bs]"
  by (induction bs arbitrary: k) (simp_all add: upt_rec)

text \<open>
  A successful enrollment, for any hash function and any random source: the stored
  entries hash draws 0 to 9, the list in the response is draws 10 to 19.
\<close>

lemma verify2FAToken_success:
  assumes "findById req_user db = Some u" and "t \<noteq> []" and "truthy session"
    and "totp session t 1"
  shows "verify2FAToken totp hash rnd db session req_user (Some t) =
           (updateOne req_user
              (\<lambda>d. d\<lparr>twoFactorSecret := session, twoFactorEnabled := True,
                     twoFactorBackupCodes :=
                       map (\<lambda>k. \<lparr>code = hash (rnd k), used = False\<rparr>) [0..<10]\<rparr>) db,
            None,
            \<lparr>status = 200, success = True,
             body = BackupCodes ''2FA has been enabled'' (map rnd [10..<20])\<rparr>)"
proof -
  let ?f = "\<lambda>d. d\<lparr>twoFactorSecret := session, twoFactorEnabled := True,
                  twoFactorBackupCodes := hashedCodes hash rnd 0 10\<rparr>"
  have "uid u = req_user"
    using assms(1) by (rule findById_uid)
  then have "findById req_user (updateOne req_user ?f db) = Some (?f u)"
    using assms(1) by (simp add: findById_updateOne)
  moreover have "hashedCodes hash rnd 0 10 =
      map (\<lambda>k. \<lparr>code = hash (rnd k), used = False\<rparr>) [0..<10]"
    by (simp add: hashedCodes_map)
  moreover have "plainCodes rnd 10 (hashedCodes hash rnd 0 10) = map rnd [10..<20]"
    by (simp add: plainCodes_map hashedCodes_map)
  ultimately show ?thesis
    using assms(2-4) by (simp add: verify2FAToken_def)
qed

text \<open>
  C2, evaluated on twenty distinct draws: the ten stored entries are the hashes of the
  first ten draws, the ten codes returned to the caller are the last ten draws, and no
  returned code compares equal to any stored hash.
\<close>

theorem C2_returned_codes_not_stored:
  "verify2FAToken sample_totp sample_hash sample_rnd [alice] (Some ''JBSWY3DPEHPK3PXP'') ''507f1f77bcf86cd799439011''
     (Some ''123456'') =
     ([alice\<lparr>twoFactorSecret := Some ''JBSWY3DPEHPK3PXP'', twoFactorEnabled := True,
             twoFactorBackupCodes :=
               map (\<lambda>p. \<lparr>code = sample_hash p, used = False\<rparr>) (take 10 sample_draws)\<rparr>],
      None,
      \<lparr>status = 200, success = True,
       body = BackupCodes ''2FA has been enabled'' (drop 10 sample_draws)\<rparr>) \<and>
   list_all (\<lambda>p. list_all (\<lambda>e. \<not> sample_cmp p (code e))
       (map (\<lambda>p. \<lparr>code = sample_hash p, used = False\<rparr>) (take 10 sample_draws)))
     (drop 10 sample_draws)"
  by (simp add: verify2FAToken_def truthy_def sample_totp_def alice_def sample_rnd_def
      sample_draws_def sample_cmp_def sample_hash_def numeral_eq_Suc)

section \<open>Login with the second factor\<close>

text \<open>
  The predicate handed to \<open>findIndex\<close> converts to \<open>true\<close> on every element, so the index
  found in a non-empty list is 0 and the predicate is called once. On an entry of the
  loaded document its promise is rejected, the \<open>code\<close> not being selected.
\<close>

lemma toBoolean_backupCodePredicate: "toBoolean (backupCodePredicate cmp bc c)"
  by (simp add: backupCodePredicate_def)

lemma isRejected_unselected_code:
  "isRejected (backupCodePredicate cmp bc (loadBackupCode c))"
  by (simp add: backupCodePredicate_def loadBackupCode_def bcryptCompare_def)

lemma findIndex_async_predicate:
  "findIndex (backupCodePredicate cmp bc) (c # cs) = 0"
  by (simp add: toBoolean_backupCodePredicate)

lemma predicateResults_async_predicate:
  "predicateResults (backupCodePredicate cmp bc) (c # cs) = [backupCodePredicate cmp bc c]"
  by (simp add: toBoolean_backupCodePredicate)

lemma findById_updateOne_twice:
  assumes "findById i db = Some u" and "uid (f u) = i" and "uid (g (f u)) = i"
  shows "findById i (updateOne i g (updateOne i f db)) = Some (g (f u))"
  using assms by (simp add: findById_updateOne)

text \<open>Marking an entry never clears the flag of any entry.\<close>

lemma markUsed_keeps_used:
  "j < length cs \<Longrightarrow> used (cs ! j) \<Longrightarrow> used (markUsed i cs ! j)"
  by (cases "i < length cs") (simp_all add: markUsed_def nth_list_update)

text \<open>
  C1, evaluated on the scenario of the specification: Alice has the second factor
  enabled and one unused backup code, \<open>AB12CD34\<close>. Where an unhandled rejection only
  warns, the first login with that code is accepted and marks the entry used, and the
  second login with the same code, on the collection the first one left, is accepted
  again with status 200, where the claim requires the 400 answer. Where an unhandled
  rejection ends the process, the first login already does so. In neither case is the
  code accepted once and refused the second time.
\<close>

theorem C1_backup_code_accepted_twice:
  "verify2FALogin sample_validId sample_totp sample_cmp sample_sign production_env Warn 1000
     [alice_2fa] (Some ''507f1f77bcf86cd799439011'') None (Some ''AB12CD34'') =
     Answered
       [alice_2fa\<lparr>twoFactorBackupCodes := [\<lparr>code = sample_hash ''AB12CD34'', used = True\<rparr>],
                  lastLogin := Some 1000\<rparr>]
       \<lparr>status = 200, success = True,
        body = Session ''jwt.507f1f77bcf86cd799439011.user'' ''507f1f77bcf86cd799439011''
                 ''Alice'' ''alice@example.com''\<rparr> \<and>
   verify2FALogin sample_validId sample_totp sample_cmp sample_sign production_env Warn 2000
     [alice_2fa\<lparr>twoFactorBackupCodes := [\<lparr>code = sample_hash ''AB12CD34'', used = True\<rparr>],
                 lastLogin := Some 1000\<rparr>]
     (Some ''507f1f77bcf86cd799439011'') None (Some ''AB12CD34'') =
     Answered
       [alice_2fa\<lparr>twoFactorBackupCodes := [\<lparr>code = sample_hash ''AB12CD34'', used = True\<rparr>],
                  lastLogin := Some 2000\<rparr>]
       \<lparr>status = 200, success = True,
        body = Session ''jwt.507f1f77bcf86cd799439011.user'' ''507f1f77bcf86cd799439011''
                 ''Alice'' ''alice@example.com''\<rparr> \<and>
   verify2FALogin sample_validId sample_totp sample_cmp sample_sign production_env Throw 1000
     [alice_2fa] (Some ''507f1f77bcf86cd799439011'') None (Some ''AB12CD34'') = ProcessExit"
  by (simp add: verify2FALogin_def truthy_def backupCodePredicate_def loadBackupCode_def
      bcryptCompare_def markUsed_def resetLoginAttempts_def getSignedJwtToken_def
      sample_sign_def sample_validId_def production_env_def alice_2fa_def alice_def)

text \<open>
  C9, as stated: every login with a non-empty backup code, for a user with the second
  factor enabled and a non-empty list of backup codes, reports \<open>verified = true\<close>. It
  fails where an unhandled rejection ends the process: the rejected promise of the
  predicate ends it before any answer. It fails too when the signing of the token
  throws: with no \<open>JWT_SECRET\<close> the entry is marked used and the answer is 500.
\<close>

theorem C9_process_exit_counterexample:
  "twoFactorEnabled alice_2fa \<and>
   twoFactorBackupCodes alice_2fa \<noteq> [] \<and>
   verify2FALogin sample_validId sample_totp sample_cmp sample_sign production_env Throw 1000
     [alice_2fa] (Some ''507f1f77bcf86cd799439011'') None (Some ''00000000'') = ProcessExit \<and>
   verify2FALogin sample_validId sample_totp sample_cmp sample_sign env_without_secret Warn 1000
     [alice_2fa] (Some ''507f1f77bcf86cd799439011'') None (Some ''00000000'') =
     Answered
       [alice_2fa\<lparr>twoFactorBackupCodes := [\<lparr>code = sample_hash ''AB12CD34'', used = True\<rparr>],
                  lastLogin := Some 1000\<rparr>]
       (failure 500 ''Error verifying 2FA'')"
  by (simp add: verify2FALogin_def truthy_def backupCodePredicate_def loadBackupCode_def
      bcryptCompare_def markUsed_def resetLoginAttempts_def getSignedJwtToken_def
      sample_sign_def sample_validId_def production_env_def env_without_secret_def
      alice_2fa_def alice_def)

text \<open>
  C9, amended: for a stored user with the second factor enabled and a non-empty list of
  backup codes, a login request that carries no token and any non-empty backup code, on
  a runtime where an unhandled rejection only warns and when the signing of the token
  succeeds, is answered 200 with the token that \<open>jwt.sign\<close> returns for the payload
  \<open>{id, role, twoFactorEnabled: true}\<close>, and the first entry of the stored list is
  marked used, whatever the hash comparison would say and whatever that entry's flag
  was. On a runtime where an unhandled rejection ends the process, the same request ends
  the process without an answer.
\<close>

theorem C9_any_backup_code_accepted:
  assumes "validId i" and "findById i db = Some u" and "i \<noteq> []" and "twoFactorEnabled u"
    and "twoFactorBackupCodes u = c # cs" and "\<not> truthy authToken" and "bc \<noteq> []"
    and "sign \<lparr>jwt_id = i, jwt_role = role u, jwt_twoFactorEnabled = True\<rparr>
           (JWT_SECRET env) (JWT_EXPIRE env) = Some tok"
  shows "(\<exists>db' u'.
            verify2FALogin validId totp cmp sign env Warn now db (Some i) authToken (Some bc) =
              Answered db'
                \<lparr>status = 200, success = True, body = Session tok i (name u) (email u)\<rparr> \<and>
            findById i db' = Some u' \<and>
            twoFactorBackupCodes u' = c\<lparr>used := True\<rparr> # cs) \<and>
         verify2FALogin validId totp cmp sign env Throw now db (Some i) authToken (Some bc) =
           ProcessExit"
proof -
  have i: "uid u = i"
    using assms(2) by (rule findById_uid)
  let ?f = "\<lambda>d. d\<lparr>twoFactorBackupCodes := markUsed (nat 0) (twoFactorBackupCodes d)\<rparr>"
  let ?db' = "updateOne i (resetLoginAttempts now) (updateOne i ?f db)"
  have stored: "findById i ?db' = Some (resetLoginAttempts now (?f u))"
    using assms(2) i by (intro findById_updateOne_twice) simp_all
  have marked: "twoFactorBackupCodes (resetLoginAttempts now (?f u)) = c\<lparr>used := True\<rparr> # cs"
    using assms(5) by (simp add: resetLoginAttempts_def markUsed_def)
  have token: "getSignedJwtToken sign env u = Some tok"
    using assms(4,8) i by (simp add: getSignedJwtToken_def)
  have warn: "verify2FALogin validId totp cmp sign env Warn now db (Some i) authToken (Some bc) =
      Answered ?db' \<lparr>status = 200, success = True, body = Session tok i (name u) (email u)\<rparr>"
    using assms(1-7) i token
    by (simp add: verify2FALogin_def truthy_def toBoolean_backupCodePredicate)
  have throw: "verify2FALogin validId totp cmp sign env Throw now db (Some i) authToken (Some bc) =
      ProcessExit"
    using assms(1-7) i
    by (simp add: verify2FALogin_def truthy_def toBoolean_backupCodePredicate
        isRejected_unselected_code)
  from warn stored marked throw show ?thesis
    by blast
qed

theorem C9_any_backup_code_accepted_witness:
  "sample_validId ''507f1f77bcf86cd799439011'' \<and>
   findById ''507f1f77bcf86cd799439011''
     [alice_2fa\<lparr>twoFactorBackupCodes :=
        [\<lparr>code = sample_hash ''AB12CD34'', used = True\<rparr>]\<rparr>] =
     Some (alice_2fa\<lparr>twoFactorBackupCodes :=
        [\<lparr>code = sample_hash ''AB12CD34'', used = True\<rparr>]\<rparr>) \<and>
   \<not> truthy None \<and>
   \<not> sample_cmp ''00000000'' (sample_hash ''AB12CD34'') \<and>
   (\<exists>db'. verify2FALogin sample_validId sample_totp sample_cmp sample_sign production_env Warn
      1000
      [alice_2fa\<lparr>twoFactorBackupCodes := [\<lparr>code = sample_hash ''AB12CD34'', used = True\<rparr>]\<rparr>]
      (Some ''507f1f77bcf86cd799439011'') None (Some ''00000000'') =
      Answered db'
        \<lparr>status = 200, success = True,
         body = Session ''jwt.507f1f77bcf86cd799439011.user'' ''507f1f77bcf86cd799439011''
                  ''Alice'' ''alice@example.com''\<rparr>) \<and>
   verify2FALogin sample_validId sample_totp sample_cmp sample_sign production_env Throw 1000
     [alice_2fa\<lparr>twoFactorBackupCodes := [\<lparr>code = sample_hash ''AB12CD34'', used = True\<rparr>]\<rparr>]
     (Some ''507f1f77bcf86cd799439011'') None (Some ''00000000'') = ProcessExit"
proof -
  let ?u = "alice_2fa\<lparr>twoFactorBackupCodes :=
       [\<lparr>code = sample_hash ''AB12CD34'', used = True\<rparr>]\<rparr>"
  have v: "sample_validId ''507f1f77bcf86cd799439011''"
    by (simp add: sample_validId_def)
  have f: "findById ''507f1f77bcf86cd799439011'' [?u] = Some ?u"
    by (simp add: alice_2fa_def alice_def)
  have e: "twoFactorEnabled ?u"
    by (simp add: alice_2fa_def)
  have t: "\<not> truthy None"
    by (simp add: truthy_def)
  have n: "\<not> sample_cmp ''00000000'' (sample_hash ''AB12CD34'')"
    by (simp add: sample_cmp_def sample_hash_def)
  have s: "sample_sign
      \<lparr>jwt_id = ''507f1f77bcf86cd799439011'', jwt_role = role ?u, jwt_twoFactorEnabled = True\<rparr>
      (JWT_SECRET production_env) (JWT_EXPIRE production_env) =
      Some ''jwt.507f1f77bcf86cd799439011.user''"
    by (simp add: sample_sign_def production_env_def truthy_def alice_2fa_def alice_def)
  have d: "name ?u = ''Alice'' \<and> email ?u = ''alice@example.com''"
    by (simp add: alice_2fa_def alice_def)
  from C9_any_backup_code_accepted [where validId = sample_validId and sign = sample_sign
      and env = production_env and totp = sample_totp and cmp = sample_cmp
      and bc = "''00000000''" and now = 1000
      and c = "\<lparr>code = sample_hash ''AB12CD34'', used = True\<rparr>" and cs = "[]",
      OF v f _ e _ t _ s] d
  have "(\<exists>db'. verify2FALogin sample_validId sample_totp sample_cmp sample_sign production_env
           Warn 1000 [?u] (Some ''507f1f77bcf86cd799439011'') None (Some ''00000000'') =
           Answered db'
             \<lparr>status = 200, success = True,
              body = Session ''jwt.507f1f77bcf86cd799439011.user''
                       ''507f1f77bcf86cd799439011'' ''Alice'' ''alice@example.com''\<rparr>) \<and>
        verify2FALogin sample_validId sample_totp sample_cmp sample_sign production_env Throw
          1000 [?u] (Some ''507f1f77bcf86cd799439011'') None (Some ''00000000'') = ProcessExit"
    by auto
  then show ?thesis
    using v f t n by simp
qed

text \<open>
  C10, as stated: for a user whose \<open>lockUntil\<close> is in the future, a login with a valid
  TOTP code, or with any backup code, succeeds and issues a signed token. It fails for
  the backup code where an unhandled rejection ends the process, and for the valid TOTP
  code when the signing throws: with no \<open>JWT_SECRET\<close> the lock is cleared and the answer
  is 500 without a token.
\<close>

theorem C10_locked_backup_code_counterexample:
  "isLocked 1000
     (alice_2fa\<lparr>loginAttempts := 5, accountLocked := True, lockUntil := Some 3600000\<rparr>) \<and>
   verify2FALogin sample_validId sample_totp sample_cmp sample_sign production_env Throw 1000
     [alice_2fa\<lparr>loginAttempts := 5, accountLocked := True, lockUntil := Some 3600000\<rparr>]
     (Some ''507f1f77bcf86cd799439011'') None (Some ''AB12CD34'') = ProcessExit \<and>
   sample_totp (Some ''JBSWY3DPEHPK3PXP'') ''123456'' 1 \<and>
   verify2FALogin sample_validId sample_totp sample_cmp sample_sign env_without_secret Warn 1000
     [alice_2fa\<lparr>loginAttempts := 5, accountLocked := True, lockUntil := Some 3600000\<rparr>]
     (Some ''507f1f77bcf86cd799439011'') (Some ''123456'') None =
     Answered [alice_2fa\<lparr>lastLogin := Some 1000\<rparr>] (failure 500 ''Error verifying 2FA'')"
  by (simp add: verify2FALogin_def truthy_def backupCodePredicate_def loadBackupCode_def
      bcryptCompare_def markUsed_def resetLoginAttempts_def getSignedJwtToken_def isLocked_def
      sample_sign_def sample_validId_def sample_totp_def production_env_def
      env_without_secret_def alice_2fa_def alice_def)

text \<open>
  C10, amended: \<open>verify2FALogin\<close> never consults the lockout state. For a stored user
  with the second factor enabled whose \<open>lockUntil\<close> is in the future, a login request
  with a valid TOTP code, or, on a runtime where an unhandled rejection only warns, with
  no token and any non-empty backup code when the stored list is not empty, is answered
  200 with the token that \<open>jwt.sign\<close> returns for the payload
  \<open>{id, role, twoFactorEnabled: true}\<close>, when the signing succeeds; the stored user then
  has \<open>loginAttempts = 0\<close>, no \<open>lockUntil\<close>, \<open>accountLocked = false\<close>, \<open>lastLogin = now\<close>,
  and is no longer locked.
\<close>

theorem C10_locked_account_2fa_login:
  assumes "validId i" and "findById i db = Some u" and "i \<noteq> []" and "twoFactorEnabled u"
    and "isLocked now u"
    and "(\<exists>t. authToken = Some t \<and> t \<noteq> [] \<and> totp (twoFactorSecret u) t 1) \<or>
         (mode = Warn \<and> \<not> truthy authToken \<and> truthy backupCode \<and>
          twoFactorBackupCodes u \<noteq> [])"
    and "sign \<lparr>jwt_id = i, jwt_role = role u, jwt_twoFactorEnabled = True\<rparr>
           (JWT_SECRET env) (JWT_EXPIRE env) = Some tok"
  shows "\<exists>db' u'.
           verify2FALogin validId totp cmp sign env mode now db (Some i) authToken backupCode =
             Answered db'
               \<lparr>status = 200, success = True, body = Session tok i (name u) (email u)\<rparr> \<and>
           findById i db' = Some u' \<and>
           loginAttempts u' = 0 \<and> lockUntil u' = None \<and> \<not> accountLocked u' \<and>
           lastLogin u' = Some now \<and> \<not> isLocked now u'"
proof -
  have i: "uid u = i"
    using assms(2) by (rule findById_uid)
  have token: "getSignedJwtToken sign env u = Some tok"
    using assms(4,7) i by (simp add: getSignedJwtToken_def)
  have reset: "loginAttempts (resetLoginAttempts now d) = 0 \<and>
      lockUntil (resetLoginAttempts now d) = None \<and>
      \<not> accountLocked (resetLoginAttempts now d) \<and>
      lastLogin (resetLoginAttempts now d) = Some now \<and>
      \<not> isLocked now (resetLoginAttempts now d)" for d
    by (simp add: resetLoginAttempts_def isLocked_def)
  from assms(6) show ?thesis
  proof
    assume "\<exists>t. authToken = Some t \<and> t \<noteq> [] \<and> totp (twoFactorSecret u) t 1"
    then obtain t where t: "authToken = Some t" "t \<noteq> []" "totp (twoFactorSecret u) t 1"
      by blast
    let ?db' = "updateOne i (resetLoginAttempts now) db"
    have stored: "findById i ?db' = Some (resetLoginAttempts now u)"
      using assms(2) i by (simp add: findById_updateOne)
    have "verify2FALogin validId totp cmp sign env mode now db (Some i) authToken backupCode =
        Answered ?db' \<lparr>status = 200, success = True, body = Session tok i (name u) (email u)\<rparr>"
      using assms(1-4) i t token
      by (simp add: verify2FALogin_def truthy_def)
    with stored reset show ?thesis
      by blast
  next
    assume b: "mode = Warn \<and> \<not> truthy authToken \<and> truthy backupCode \<and>
      twoFactorBackupCodes u \<noteq> []"
    then obtain bc where bc: "backupCode = Some bc" "bc \<noteq> []"
      by (auto simp: truthy_def split: option.splits)
    from b obtain c cs where cs: "twoFactorBackupCodes u = c # cs"
      by (cases "twoFactorBackupCodes u") auto
    let ?f = "\<lambda>d. d\<lparr>twoFactorBackupCodes := markUsed (nat 0) (twoFactorBackupCodes d)\<rparr>"
    let ?db' = "updateOne i (resetLoginAttempts now) (updateOne i ?f db)"
    have stored: "findById i ?db' = Some (resetLoginAttempts now (?f u))"
      using assms(2) i by (intro findById_updateOne_twice) simp_all
    have "verify2FALogin validId totp cmp sign env mode now db (Some i) authToken backupCode =
        Answered ?db' \<lparr>status = 200, success = True, body = Session tok i (name u) (email u)\<rparr>"
      using assms(1-4) i b bc cs token
      by (simp add: verify2FALogin_def truthy_def toBoolean_backupCodePredicate)
    with stored reset show ?thesis
      by blast
  qed
qed

theorem C10_locked_account_2fa_login_witness:
  "sample_validId ''507f1f77bcf86cd799439011'' \<and>
   findById ''507f1f77bcf86cd799439011''
     [alice_2fa\<lparr>loginAttempts := 5, accountLocked := True, lockUntil := Some 3600000\<rparr>] =
     Some (alice_2fa\<lparr>loginAttempts := 5, accountLocked := True, lockUntil := Some 3600000\<rparr>) \<and>
   isLocked 1000
     (alice_2fa\<lparr>loginAttempts := 5, accountLocked := True, lockUntil := Some 3600000\<rparr>) \<and>
   sample_totp (Some ''JBSWY3DPEHPK3PXP'') ''123456'' 1 \<and>
   (\<exists>db' u'.
      verify2FALogin sample_validId sample_totp sample_cmp sample_sign production_env Throw 1000
        [alice_2fa\<lparr>loginAttempts := 5, accountLocked := True, lockUntil := Some 3600000\<rparr>]
        (Some ''507f1f77bcf86cd799439011'') (Some ''123456'') None =
        Answered db'
          \<lparr>status = 200, success = True,
           body = Session ''jwt.507f1f77bcf86cd799439011.user'' ''507f1f77bcf86cd799439011''
                    ''Alice'' ''alice@example.com''\<rparr> \<and>
      findById ''507f1f77bcf86cd799439011'' db' = Some u' \<and>
      loginAttempts u' = 0 \<and> lockUntil u' = None \<and> \<not> accountLocked u') \<and>
   (\<exists>db' u'.
      verify2FALogin sample_validId sample_totp sample_cmp sample_sign production_env Warn 1000
        [alice_2fa\<lparr>loginAttempts := 5, accountLocked := True, lockUntil := Some 3600000\<rparr>]
        (Some ''507f1f77bcf86cd799439011'') None (Some ''00000000'') =
        Answered db'
          \<lparr>status = 200, success = True,
           body = Session ''jwt.507f1f77bcf86cd799439011.user'' ''507f1f77bcf86cd799439011''
                    ''Alice'' ''alice@example.com''\<rparr> \<and>
      findById ''507f1f77bcf86cd799439011'' db' = Some u' \<and>
      loginAttempts u' = 0 \<and> lockUntil u' = None \<and> \<not> accountLocked u')"
proof -
  let ?u = "alice_2fa\<lparr>loginAttempts := 5, accountLocked := True, lockUntil := Some 3600000\<rparr>"
  have v: "sample_validId ''507f1f77bcf86cd799439011''"
    by (simp add: sample_validId_def)
  have f: "findById ''507f1f77bcf86cd799439011'' [?u] = Some ?u"
    by (simp add: alice_2fa_def alice_def)
  have e: "twoFactorEnabled ?u"
    by (simp add: alice_2fa_def)
  have l: "isLocked 1000 ?u"
    by (simp add: isLocked_def)
  have t: "sample_totp (Some ''JBSWY3DPEHPK3PXP'') ''123456'' 1"
    by (simp add: sample_totp_def)
  have s: "sample_sign
      \<lparr>jwt_id = ''507f1f77bcf86cd799439011'', jwt_role = role ?u, jwt_twoFactorEnabled = True\<rparr>
      (JWT_SECRET production_env) (JWT_EXPIRE production_env) =
      Some ''jwt.507f1f77bcf86cd799439011.user''"
    by (simp add: sample_sign_def production_env_def truthy_def alice_2fa_def alice_def)
  have d: "name ?u = ''Alice'' \<and> email ?u = ''alice@example.com''"
    by (simp add: alice_2fa_def alice_def)
  have c1: "(\<exists>t. Some ''123456'' = Some t \<and> t \<noteq> [] \<and> sample_totp (twoFactorSecret ?u) t 1) \<or>
      (Throw = Warn \<and> \<not> truthy (Some ''123456'') \<and> truthy None \<and>
       twoFactorBackupCodes ?u \<noteq> [])"
    using t by (simp add: alice_2fa_def)
  have c2: "(\<exists>t. None = Some t \<and> t \<noteq> [] \<and> sample_totp (twoFactorSecret ?u) t 1) \<or>
      (Warn = Warn \<and> \<not> truthy None \<and> truthy (Some ''00000000'') \<and>
       twoFactorBackupCodes ?u \<noteq> [])"
    by (simp add: truthy_def alice_2fa_def)
  from C10_locked_account_2fa_login [where validId = sample_validId and sign = sample_sign
      and env = production_env and totp = sample_totp and cmp = sample_cmp
      and authToken = "Some ''123456''" and backupCode = None and mode = Throw,
      OF v f _ e l c1 s] d
  have r1: "\<exists>db' u'.
      verify2FALogin sample_validId sample_totp sample_cmp sample_sign production_env Throw 1000
        [?u] (Some ''507f1f77bcf86cd799439011'') (Some ''123456'') None =
        Answered db'
          \<lparr>status = 200, success = True,
           body = Session ''jwt.507f1f77bcf86cd799439011.user'' ''507f1f77bcf86cd799439011''
                    ''Alice'' ''alice@example.com''\<rparr> \<and>
      findById ''507f1f77bcf86cd799439011'' db' = Some u' \<and>
      loginAttempts u' = 0 \<and> lockUntil u' = None \<and> \<not> accountLocked u'"
    by auto
  from C10_locked_account_2fa_login [where validId = sample_validId and sign = sample_sign
      and env = production_env and totp = sample_totp and cmp = sample_cmp
      and authToken = None and backupCode = "Some ''00000000''" and mode = Warn,
      OF v f _ e l c2 s] d
  have r2: "\<exists>db' u'.
      verify2FALogin sample_validId sample_totp sample_cmp sample_sign production_env Warn 1000
        [?u] (Some ''507f1f77bcf86cd799439011'') None (Some ''00000000'') =
        Answered db'
          \<lparr>status = 200, success = True,
           body = Session ''jwt.507f1f77bcf86cd799439011.user'' ''507f1f77bcf86cd799439011''
                    ''Alice'' ''alice@example.com''\<rparr> \<and>
      findById ''507f1f77bcf86cd799439011'' db' = Some u' \<and>
      loginAttempts u' = 0 \<and> lockUntil u' = None \<and> \<not> accountLocked u'"
    by auto
  from r1 r2 v f l t show ?thesis
    by simp
qed

end
